theory Spec2Isabelle
  imports Main "HOL-Library.Word"
begin

section \<open>Values of the module\<close>

text \<open>
  The module \<^verbatim>\<open>src/modules/SignedOperations.ts\<close> works on JavaScript strings and
  BigNumbers. A digest is the 32-byte result of Keccak-256; an address is the text the
  caller supplied (its letter case is visible to the signing payload and to the
  comparison of signers); an Integer is an unbounded BigNumber holding a whole number.
\<close>

type_synonym byte = "8 word"
type_synonym bytes = "byte list"
type_synonym digest = "256 word"
type_synonym address = string

datatype error =
    TypeError
  | InvalidBytes32
  | UintExceedsWidth
  | UintNegative
  | AssertionFailed
  | NotANumber
  | NotHexText
  | InvalidSignature
  | UnsupportedSignatureType
  | SignerRejected string

text \<open>
  A JavaScript value used where the code expects hexadecimal text: \<open>Null\<close> is the value
  null, \<open>Hex bs\<close> is text that spells the bytes \<open>bs\<close>, \<open>BadHex\<close> is text that is not
  hexadecimal (outside the types of the module; the packing reports it as \<open>NotHexText\<close>).
\<close>

datatype hexstring = Null | Hex bytes | BadHex

record AssetAmount =
  sign :: bool
  denomination :: int
  ref :: int
  "value" :: int

record Action =
  actionType :: int
  primaryAccountOwner :: address
  primaryAccountNumber :: int
  amount :: AssetAmount
  primaryMarketId :: int
  secondaryMarketId :: int
  otherAddress :: address
  secondaryAccountOwner :: address
  secondaryAccountNumber :: int
  data :: bytes

record Operation =
  actions :: "Action list"
  expiration :: int
  salt :: int
  sender :: address
  signer :: address

record SignedOperation = Operation +
  typedSignature :: string

text \<open>
  The instance fields of the class \<open>SignedOperations\<close> that the hashing reads:
  \<open>networkId\<close> and \<open>contracts.signedOperationProxy.options.address\<close>. The network id
  is a JavaScript number (\<open>private networkId: number\<close>), here a whole one.
\<close>

record SignedOperations =
  networkId :: int
  proxyAddress :: address

text \<open>
  The class holds more than the hashing reads: the \<open>web3\<close> handle, whose provider the
  signing requests go to, and the other contracts. An instance with them extends the
  record.
\<close>

record SignedOperationsInstance = SignedOperations +
  currentProvider :: string
  otherContracts :: "address list"

section \<open>Text helpers\<close>

definition hexDigit :: "char \<Rightarrow> nat option" where
  "hexDigit c =
     (let n = (of_char c :: nat) in
      if 48 \<le> n \<and> n \<le> 57 then Some (n - 48)
      else if 97 \<le> n \<and> n \<le> 102 then Some (n - 87)
      else if 65 \<le> n \<and> n \<le> 70 then Some (n - 55)
      else None)"

fun hexPairs :: "string \<Rightarrow> bytes option" where
  "hexPairs [] = Some []"
| "hexPairs [c] = None"
| "hexPairs (a # b # r) =
     (case hexDigit a of None \<Rightarrow> None
      | Some x \<Rightarrow> (case hexDigit b of None \<Rightarrow> None
         | Some y \<Rightarrow> (case hexPairs r of None \<Rightarrow> None
            | Some bs \<Rightarrow> Some (word_of_nat (16 * x + y) # bs))))"

text \<open>
  Modelled from the spec: \<open>stripHexPrefix\<close> of \<^verbatim>\<open>lib/BytesHelper\<close> is not among the
  sources; hexadecimal text carries "a fixed prefix", the two characters \<open>0x\<close>.
\<close>

definition stripHexPrefix :: "string \<Rightarrow> string" where
  "stripHexPrefix s = (if take 2 s = ''0x'' then drop 2 s else s)"

definition hexToBytes :: "string \<Rightarrow> bytes option" where
  "hexToBytes s = hexPairs (stripHexPrefix s)"

definition lowerChar :: "char \<Rightarrow> char" where
  "lowerChar c =
     (let n = (of_char c :: nat) in if 65 \<le> n \<and> n \<le> 90 then char_of (n + 32) else c)"

definition toLowerCase :: "string \<Rightarrow> string" where
  "toLowerCase s = map lowerChar s"

definition utf8 :: "string \<Rightarrow> bytes" where
  "utf8 s = map (\<lambda>c. word_of_nat (of_char c)) s"

subsection \<open>Decimal text\<close>

definition digitChar :: "nat \<Rightarrow> char" where
  "digitChar d = char_of (48 + d)"

function showNat :: "nat \<Rightarrow> string" where
  "showNat n = (if n < 10 then [digitChar n] else showNat (n div 10) @ [digitChar (n mod 10)])"
  by pat_completeness auto
termination
  by (relation "measure id") auto

declare showNat.simps [simp del]

definition decimal :: "int \<Rightarrow> string" where
  "decimal n = (if n < 0 then CHR ''-'' # showNat (nat (- n)) else showNat (nat n))"

text \<open>
  Modelled from the spec: \<open>toString\<close> of \<^verbatim>\<open>lib/Helpers\<close> is not among the sources; it
  coerces an integer "to canonical base-10 string form".
\<close>

definition toString :: "int \<Rightarrow> string" where
  "toString n = decimal n"

text \<open>\<open>BigNumber.toFixed(0)\<close> on a whole number: its decimal text.\<close>

definition toFixed0 :: "int \<Rightarrow> string" where
  "toFixed0 n = decimal n"

definition digitVal :: "char \<Rightarrow> nat option" where
  "digitVal c = (let n = (of_char c :: nat) in if 48 \<le> n \<and> n \<le> 57 then Some (n - 48) else None)"

definition readStep :: "char \<Rightarrow> nat option \<Rightarrow> nat option" where
  "readStep c acc =
     (case acc of None \<Rightarrow> None
      | Some a \<Rightarrow> (case digitVal c of None \<Rightarrow> None | Some d \<Rightarrow> Some (10 * a + d)))"

definition readNat :: "string \<Rightarrow> nat option" where
  "readNat s = (if s = [] then None else fold readStep s (Some 0))"

text \<open>How the packing reads a decimal string back (\<open>new BN(value)\<close>).\<close>

definition readDecimal :: "string \<Rightarrow> int option" where
  "readDecimal s =
     (case s of
        [] \<Rightarrow> None
      | c # r \<Rightarrow> if c = CHR ''-'' then map_option (\<lambda>n. - int n) (readNat r)
                 else map_option int (readNat s))"

section \<open>The hash primitive\<close>

text \<open>
  \<open>soliditySha3\<close> comes from the library web3-utils. It packs its typed arguments tightly,
  one after the other in argument order, and hands the packed bytes to the library's
  \<open>sha3\<close>, which computes Keccak-256 (the parameter \<open>K\<close> below) and answers null in place
  of the digest of the empty input. Packing a \<open>bytes32\<close> argument reads the hexadecimal
  text of its value: the value null raises a TypeError, a value longer than 32 bytes is
  refused, a shorter one is padded on the right. A \<open>uint256\<close> value given as a decimal
  string is read back as a number; a number that is wider than 256 bits or negative is
  refused, any other is written as 32 bytes, the most significant first. A \<open>uint256\<close>
  value given as a JavaScript number is first made a big number by \<open>new BN(number)\<close>,
  which fails its assertion \<open>number < 0x20000000000000\<close> for a magnitude of \<open>2 ^ 53\<close> or
  more. The first argument that cannot be packed ends the call.
\<close>

datatype numvalue = NumStr string | Num int

datatype solArg =
    Bytes32 hexstring
  | Uint256 numvalue
  | BytesDyn bytes
  | Str string

definition digestBytes :: "digest \<Rightarrow> bytes" where
  "digestBytes w = map (\<lambda>i. ucast (drop_bit (8 * i) w)) (rev [0..<32])"

text \<open>A number below \<open>2 ^ 256\<close> as 32 bytes, the most significant byte first.\<close>

definition uint256Bytes :: "int \<Rightarrow> bytes" where
  "uint256Bytes n = digestBytes (word_of_int n)"

definition packUint256 :: "int \<Rightarrow> error + bytes" where
  "packUint256 n =
     (if 2 ^ 256 \<le> \<bar>n\<bar> then Inl UintExceedsWidth
      else if n < 0 then Inl UintNegative
      else Inr (uint256Bytes n))"

fun solidityPack :: "solArg \<Rightarrow> error + bytes" where
  "solidityPack (Bytes32 Null) = Inl TypeError"
| "solidityPack (Bytes32 BadHex) = Inl NotHexText"
| "solidityPack (Bytes32 (Hex v)) =
     (if 32 < length v then Inl InvalidBytes32 else Inr (v @ replicate (32 - length v) 0))"
| "solidityPack (Uint256 (Num n)) =
     (if 2 ^ 53 \<le> \<bar>n\<bar> then Inl AssertionFailed else packUint256 n)"
| "solidityPack (Uint256 (NumStr s)) =
     (case readDecimal s of None \<Rightarrow> Inl NotANumber | Some n \<Rightarrow> packUint256 n)"
| "solidityPack (BytesDyn v) = Inr v"
| "solidityPack (Str s) = Inr (utf8 s)"

fun packAll :: "solArg list \<Rightarrow> error + bytes" where
  "packAll [] = Inr []"
| "packAll (a # as) =
     (case solidityPack a of Inl e \<Rightarrow> Inl e
      | Inr b \<Rightarrow> (case packAll as of Inl e \<Rightarrow> Inl e | Inr bs \<Rightarrow> Inr (b @ bs)))"

definition sha3 :: "(bytes \<Rightarrow> digest) \<Rightarrow> bytes \<Rightarrow> hexstring" where
  "sha3 K bs = (if bs = [] then Null else Hex (digestBytes (K bs)))"

definition soliditySha3 :: "(bytes \<Rightarrow> digest) \<Rightarrow> solArg list \<Rightarrow> error + hexstring" where
  "soliditySha3 K args = (case packAll args of Inl e \<Rightarrow> Inl e | Inr bs \<Rightarrow> Inr (sha3 K bs))"

text \<open>
  Modelled from the spec: \<open>hashString\<close> of \<^verbatim>\<open>lib/BytesHelper\<close> is not among the
  sources; the spec gives \<open>hashUtf8(str)\<close> as a wrapper of the hash, and hashing as total
  over the value domain.
\<close>

definition hashString :: "(bytes \<Rightarrow> digest) \<Rightarrow> string \<Rightarrow> hexstring" where
  "hashString K s = Hex (digestBytes (K (utf8 s)))"

text \<open>
  Modelled from the spec: \<open>hashBytes\<close> of \<^verbatim>\<open>lib/BytesHelper\<close> is not among the
  sources; the spec gives \<open>hashBytes(bytes)\<close> as a wrapper of the hash that returns a
  digest for every byte string.
\<close>

definition hashBytes :: "(bytes \<Rightarrow> digest) \<Rightarrow> bytes \<Rightarrow> hexstring" where
  "hashBytes K bs = Hex (digestBytes (K bs))"

definition leftPad32 :: "bytes \<Rightarrow> bytes" where
  "leftPad32 bs = replicate (32 - length bs) 0 @ bs"

text \<open>
  Modelled from the spec: \<open>addressToBytes32\<close> of \<^verbatim>\<open>lib/BytesHelper\<close> is not among
  the sources; an address is hashed "left-padded to 32 bytes".
\<close>

definition addressToBytes32 :: "address \<Rightarrow> hexstring" where
  "addressToBytes32 a =
     (case hexToBytes a of None \<Rightarrow> BadHex | Some bs \<Rightarrow> Hex (leftPad32 bs))"

section \<open>Type descriptors\<close>

definition EIP712_OPERATION_STRUCT :: "(string \<times> string) list" where
  "EIP712_OPERATION_STRUCT =
     [(''Action[]'', ''actions''),
      (''uint256'', ''expiration''),
      (''uint256'', ''salt''),
      (''address'', ''sender'')]"

definition EIP712_ACTION_STRUCT :: "(string \<times> string) list" where
  "EIP712_ACTION_STRUCT =
     [(''uint8'', ''actionType''),
      (''address'', ''accountOwner''),
      (''uint256'', ''accountNumber''),
      (''AssetAmount'', ''assetAmount''),
      (''uint256'', ''primaryMarketId''),
      (''uint256'', ''secondaryMarketId''),
      (''address'', ''otherAddress''),
      (''address'', ''otherAccountOwner''),
      (''uint256'', ''otherAccountNumber''),
      (''bytes'', ''data'')]"

definition EIP712_ASSET_AMOUNT_STRUCT :: "(string \<times> string) list" where
  "EIP712_ASSET_AMOUNT_STRUCT =
     [(''bool'', ''sign''),
      (''uint8'', ''denomination''),
      (''uint8'', ''ref''),
      (''uint256'', ''value'')]"

definition EIP712_ASSET_AMOUNT_STRING :: string where
  "EIP712_ASSET_AMOUNT_STRING =
     ''AssetAmount('' @
     ''bool sign,'' @
     ''uint8 denomination,'' @
     ''uint8 ref,'' @
     ''uint256 value'' @
     '')''"

definition EIP712_ACTION_STRING :: string where
  "EIP712_ACTION_STRING =
     ''Action('' @
     ''uint8 actionType,'' @
     ''address accountOwner,'' @
     ''uint256 accountNumber,'' @
     ''AssetAmount assetAmount,'' @
     ''uint256 primaryMarketId,'' @
     ''uint256 secondaryMarketId,'' @
     ''address otherAddress,'' @
     ''address otherAccountOwner,'' @
     ''uint256 otherAccountNumber,'' @
     ''bytes data'' @
     '')'' @
     EIP712_ASSET_AMOUNT_STRING"

definition EIP712_OPERATION_STRING :: string where
  "EIP712_OPERATION_STRING =
     ''Operation('' @
     ''Action[] actions,'' @
     ''uint256 expiration,'' @
     ''uint256 salt,'' @
     ''address sender'' @
     '')'' @
     EIP712_ACTION_STRING"

section \<open>Hashing functions\<close>

text \<open>
  Every function takes the Keccak-256 primitive \<open>K\<close>; \<open>getDomainHash\<close> also takes
  \<open>EIP712_DOMAIN_STRING\<close>, a constant of \<^verbatim>\<open>lib/SignatureHelper\<close> that is not among the
  sources, as the parameter \<open>D\<close>. A JavaScript exception is the left summand. The
  arguments of a call are evaluated from left to right before the call, so a nested
  hashing call that throws does so before \<open>soliditySha3\<close> packs anything.
\<close>

definition getAssetAmountHash :: "(bytes \<Rightarrow> digest) \<Rightarrow> AssetAmount \<Rightarrow> error + hexstring" where
  "getAssetAmountHash K amt =
     soliditySha3 K
       [Bytes32 (hashString K EIP712_ASSET_AMOUNT_STRING),
        Uint256 (NumStr (toString (if sign amt then 1 else 0))),
        Uint256 (NumStr (toString (denomination amt))),
        Uint256 (NumStr (toString (ref amt))),
        Uint256 (NumStr (toString (value amt)))]"

definition getActionHash :: "(bytes \<Rightarrow> digest) \<Rightarrow> Action \<Rightarrow> error + hexstring" where
  "getActionHash K action =
     (case getAssetAmountHash K (amount action) of
        Inl e \<Rightarrow> Inl e
      | Inr amountHash \<Rightarrow>
          soliditySha3 K
            [Bytes32 (hashString K EIP712_ACTION_STRING),
             Uint256 (NumStr (toString (actionType action))),
             Bytes32 (addressToBytes32 (primaryAccountOwner action)),
             Uint256 (NumStr (toString (primaryAccountNumber action))),
             Bytes32 amountHash,
             Uint256 (NumStr (toString (primaryMarketId action))),
             Uint256 (NumStr (toString (secondaryMarketId action))),
             Bytes32 (addressToBytes32 (otherAddress action)),
             Bytes32 (addressToBytes32 (secondaryAccountOwner action)),
             Uint256 (NumStr (toString (secondaryAccountNumber action))),
             Bytes32 (hashBytes K (data action))])"

text \<open>\<open>actions.map(...)\<close>: the hashes of the actions in order, stopping at the first throw.\<close>

fun actionsAsHashes :: "(bytes \<Rightarrow> digest) \<Rightarrow> Action list \<Rightarrow> error + solArg list" where
  "actionsAsHashes K [] = Inr []"
| "actionsAsHashes K (a # as) =
     (case getActionHash K a of Inl e \<Rightarrow> Inl e
      | Inr h \<Rightarrow> (case actionsAsHashes K as of Inl e \<Rightarrow> Inl e
         | Inr hs \<Rightarrow> Inr (Bytes32 h # hs)))"

definition getActionsHash :: "(bytes \<Rightarrow> digest) \<Rightarrow> Action list \<Rightarrow> error + hexstring" where
  "getActionsHash K acts =
     (case actionsAsHashes K acts of Inl e \<Rightarrow> Inl e | Inr hs \<Rightarrow> soliditySha3 K hs)"

definition getDomainHash ::
  "(bytes \<Rightarrow> digest) \<Rightarrow> string \<Rightarrow> 'a SignedOperations_scheme \<Rightarrow> error + hexstring" where
  "getDomainHash K D this =
     soliditySha3 K
       [Bytes32 (hashString K D),
        Bytes32 (hashString K ''SignedOperationProxy''),
        Bytes32 (hashString K ''1.0''),
        Uint256 (Num (networkId this)),
        Bytes32 (addressToBytes32 (proxyAddress this))]"

definition getOperationHash ::
  "(bytes \<Rightarrow> digest) \<Rightarrow> string \<Rightarrow> 'a SignedOperations_scheme \<Rightarrow>
     'b Operation_scheme \<Rightarrow> error + hexstring" where
  "getOperationHash K D this operation =
     (case getActionsHash K (actions operation) of
        Inl e \<Rightarrow> Inl e
      | Inr actionsHash \<Rightarrow>
         (case soliditySha3 K
                 [Bytes32 (hashString K EIP712_OPERATION_STRING),
                  Bytes32 actionsHash,
                  Uint256 (NumStr (toString (expiration operation))),
                  Uint256 (NumStr (toString (salt operation))),
                  Bytes32 (addressToBytes32 (sender operation))] of
            Inl e \<Rightarrow> Inl e
          | Inr basicHash \<Rightarrow>
             (case getDomainHash K D this of
                Inl e \<Rightarrow> Inl e
              | Inr domainHash \<Rightarrow>
                  soliditySha3 K
                    [BytesDyn [0x19, 0x01],
                     Bytes32 domainHash,
                     Bytes32 basicHash])))"

definition operationHashToCancelOperationHash ::
  "(bytes \<Rightarrow> digest) \<Rightarrow> hexstring \<Rightarrow> error + hexstring" where
  "operationHashToCancelOperationHash K operationHash =
     soliditySha3 K [Str ''cancel'', Bytes32 operationHash]"

section \<open>Signature verification\<close>

text \<open>
  A typed signature is hexadecimal text: the raw signature followed by one trailing tag
  byte. The elliptic-curve procedures are the parameter \<open>R\<close>: \<open>R tag\<close> is the procedure
  of a recognised tag, which answers \<open>None\<close> on a malformed raw signature.
\<close>

type_synonym recovery = "byte \<Rightarrow> (hexstring \<Rightarrow> bytes \<Rightarrow> address option) option"

text \<open>
  Modelled from the spec: \<open>ecRecoverTypedSignature\<close> of \<^verbatim>\<open>lib/SignatureHelper\<close> is not
  among the sources. Recovery "strips the tag, dispatches to the recovery procedure
  appropriate for that tag, and returns the recovered address", failing with
  \<open>UnsupportedSignatureType\<close> for an unrecognised tag and with \<open>InvalidSignature\<close> for a
  malformed raw signature.
\<close>

definition ecRecoverTypedSignature :: "recovery \<Rightarrow> hexstring \<Rightarrow> string \<Rightarrow> error + address" where
  "ecRecoverTypedSignature R hash typedSig =
     (case hexToBytes typedSig of
        None \<Rightarrow> Inl InvalidSignature
      | Some bs \<Rightarrow>
          if bs = [] then Inl InvalidSignature
          else (case R (last bs) of
                  None \<Rightarrow> Inl UnsupportedSignatureType
                | Some recover \<Rightarrow>
                    (case recover hash (butlast bs) of
                       None \<Rightarrow> Inl InvalidSignature
                     | Some a \<Rightarrow> Inr a)))"

text \<open>
  Modelled from the spec: \<open>addressesAreEqual\<close> of \<^verbatim>\<open>lib/BytesHelper\<close> is not among
  the sources; the recovered address is compared with the claimed signer
  "case-insensitive".
\<close>

definition addressesAreEqual :: "address \<Rightarrow> address \<Rightarrow> bool" where
  "addressesAreEqual addressOne addressTwo = (toLowerCase addressOne = toLowerCase addressTwo)"

definition operationByHashHasValidSignature ::
  "recovery \<Rightarrow> hexstring \<Rightarrow> string \<Rightarrow> address \<Rightarrow> error + bool" where
  "operationByHashHasValidSignature R operationHash typedSig expectedSigner =
     (case ecRecoverTypedSignature R operationHash typedSig of
        Inl e \<Rightarrow> Inl e
      | Inr recovered \<Rightarrow> Inr (addressesAreEqual recovered expectedSigner))"

definition operationHasValidSignature ::
  "(bytes \<Rightarrow> digest) \<Rightarrow> string \<Rightarrow> recovery \<Rightarrow> SignedOperations \<Rightarrow>
     'a SignedOperation_scheme \<Rightarrow> error + bool" where
  "operationHasValidSignature K D R this signedOperation =
     (case getOperationHash K D this signedOperation of
        Inl e \<Rightarrow> Inl e
      | Inr operationHash \<Rightarrow>
          operationByHashHasValidSignature R operationHash
            (typedSignature signedOperation) (signer signedOperation))"

definition cancelOperationByHashHasValidSignature ::
  "(bytes \<Rightarrow> digest) \<Rightarrow> recovery \<Rightarrow> hexstring \<Rightarrow> string \<Rightarrow> address \<Rightarrow> error + bool" where
  "cancelOperationByHashHasValidSignature K R operationHash typedSig expectedSigner =
     (case operationHashToCancelOperationHash K operationHash of
        Inl e \<Rightarrow> Inl e
      | Inr cancelHash \<Rightarrow>
          (case ecRecoverTypedSignature R cancelHash typedSig of
             Inl e \<Rightarrow> Inl e
           | Inr recovered \<Rightarrow> Inr (addressesAreEqual recovered expectedSigner)))"

definition cancelOperationHasValidSignature ::
  "(bytes \<Rightarrow> digest) \<Rightarrow> string \<Rightarrow> recovery \<Rightarrow> SignedOperations \<Rightarrow>
     'a Operation_scheme \<Rightarrow> string \<Rightarrow> error + bool" where
  "cancelOperationHasValidSignature K D R this operation typedSig =
     (case getOperationHash K D this operation of
        Inl e \<Rightarrow> Inl e
      | Inr operationHash \<Rightarrow>
          cancelOperationByHashHasValidSignature K R operationHash typedSig (signer operation))"

section \<open>The typed-data signing request\<close>

record AssetAmountMsg =
  sign_msg :: bool
  denomination_msg :: string
  ref_msg :: string
  value_msg :: string

record ActionMsg =
  actionType_msg :: string
  accountOwner :: address
  accountNumber :: string
  assetAmount :: AssetAmountMsg
  primaryMarketId_msg :: string
  secondaryMarketId_msg :: string
  otherAddress_msg :: string
  otherAccountOwner :: address
  otherAccountNumber :: string
  data_msg :: bytes

record OperationMsg =
  actions_msg :: "ActionMsg list"
  expiration_msg :: string
  salt_msg :: string
  sender_msg :: address

record DomainData =
  name :: string
  version :: string
  chainId :: int
  verifyingContract :: address

record TypesData =
  types_EIP712Domain :: "(string \<times> string) list"
  types_Operation :: "(string \<times> string) list"
  types_Action :: "(string \<times> string) list"
  types_AssetAmount :: "(string \<times> string) list"

record TypedData =
  types :: TypesData
  domain :: DomainData
  primaryType :: string
  message :: OperationMsg

record Request =
  rpc_method :: string
  params :: "address \<times> TypedData"
  jsonrpc :: string
  request_id :: int

record Response =
  error_message :: "string option"
  result :: string

text \<open>
  \<open>toString\<close> is also applied to \<open>action.otherAddress\<close>, which is text and not an
  integer; what \<^verbatim>\<open>lib/Helpers\<close> answers there is the parameter \<open>T\<close>. The constant
  \<open>EIP712_DOMAIN_STRUCT\<close> of \<^verbatim>\<open>lib/SignatureHelper\<close> is the parameter \<open>DS\<close>.
\<close>

definition actionData :: "(string \<Rightarrow> string) \<Rightarrow> Action \<Rightarrow> ActionMsg" where
  "actionData T action =
     \<lparr> actionType_msg = toString (actionType action),
       accountOwner = primaryAccountOwner action,
       accountNumber = toString (primaryAccountNumber action),
       assetAmount =
         \<lparr> sign_msg = sign (amount action),
           denomination_msg = toString (denomination (amount action)),
           ref_msg = toString (ref (amount action)),
           value_msg = toString (value (amount action)) \<rparr>,
       primaryMarketId_msg = toString (primaryMarketId action),
       secondaryMarketId_msg = toString (secondaryMarketId action),
       otherAddress_msg = T (otherAddress action),
       otherAccountOwner = secondaryAccountOwner action,
       otherAccountNumber = toString (secondaryAccountNumber action),
       data_msg = data action \<rparr>"

definition typedData ::
  "(string \<times> string) list \<Rightarrow> (string \<Rightarrow> string) \<Rightarrow> SignedOperations \<Rightarrow>
     'a Operation_scheme \<Rightarrow> TypedData" where
  "typedData DS T this operation =
     (let domainData =
            \<lparr> name = ''SignedOperationProxy'',
              version = ''1.0'',
              chainId = networkId this,
              verifyingContract = proxyAddress this \<rparr>;
          actionsData = map (actionData T) (actions operation);
          operationData =
            \<lparr> actions_msg = actionsData,
              expiration_msg = toFixed0 (expiration operation),
              salt_msg = toFixed0 (salt operation),
              sender_msg = sender operation \<rparr>
      in \<lparr> types =
             \<lparr> types_EIP712Domain = DS,
               types_Operation = EIP712_OPERATION_STRUCT,
               types_Action = EIP712_ACTION_STRUCT,
               types_AssetAmount = EIP712_ASSET_AMOUNT_STRUCT \<rparr>,
           domain = domainData,
           primaryType = ''Operation'',
           message = operationData \<rparr>)"

text \<open>
  The provider is the parameter \<open>send\<close>, the clock reading \<open>new Date().getTime()\<close> is
  \<open>now\<close>, and \<open>SIGNATURE_TYPES.NO_PREPEND\<close> of \<^verbatim>\<open>lib/SignatureHelper\<close> is \<open>noPrepend\<close>.
\<close>

definition typedDataRequest ::
  "(string \<times> string) list \<Rightarrow> (string \<Rightarrow> string) \<Rightarrow> int \<Rightarrow> SignedOperations \<Rightarrow>
     'a Operation_scheme \<Rightarrow> string \<Rightarrow> Request" where
  "typedDataRequest DS T now this operation rpcMethod =
     \<lparr> rpc_method = rpcMethod,
       params = (signer operation, typedData DS T this operation),
       jsonrpc = ''2.0'',
       request_id = now \<rparr>"

definition ethSignTypedOperationInternal ::
  "(string \<times> string) list \<Rightarrow> (string \<Rightarrow> string) \<Rightarrow> (Request \<Rightarrow> Response) \<Rightarrow> int \<Rightarrow> int \<Rightarrow>
     SignedOperations \<Rightarrow> 'a Operation_scheme \<Rightarrow> string \<Rightarrow> error + string" where
  "ethSignTypedOperationInternal DS T send now noPrepend this operation rpcMethod =
     (let response = send (typedDataRequest DS T now this operation rpcMethod)
      in case error_message response of
           Some msg \<Rightarrow> Inl (SignerRejected msg)
         | None \<Rightarrow> Inr (''0x'' @ stripHexPrefix (result response) @ ''0'' @ decimal noPrepend))"

section \<open>On-chain cancel\<close>

text \<open>
  An options object is a JavaScript object, a map from property names to values. The
  caller holds a reference to it, so the objects live in a store (a list, a reference
  being an index) and the \<open>options\<close> argument is \<open>None\<close> for undefined or the reference.
  The transaction itself is sent by \<open>contracts.callContractFunction\<close>, outside this
  module: the model records what it is called with.
\<close>

datatype jsvalue = JStr string | JNum int

type_synonym ContractCallOptions = "string \<rightharpoonup> jsvalue"
type_synonym store = "ContractCallOptions list"

datatype contractCall = Cancel hexstring "nat option"

definition cancelOperationByHash ::
  "hexstring \<Rightarrow> nat option \<Rightarrow> store \<Rightarrow> (error + contractCall) \<times> store" where
  "cancelOperationByHash operationHash options st = (Inr (Cancel operationHash options), st)"

definition cancelOperation ::
  "(bytes \<Rightarrow> digest) \<Rightarrow> string \<Rightarrow> SignedOperations \<Rightarrow> 'a Operation_scheme \<Rightarrow>
     nat option \<Rightarrow> store \<Rightarrow> (error + contractCall) \<times> store" where
  "cancelOperation K D this operation options st =
     (case getOperationHash K D this operation of
        Inl e \<Rightarrow> (Inl e, st)
      | Inr operationHash \<Rightarrow>
          (let (cco, st1) = (case options of
                               None \<Rightarrow> (length st, st @ [Map.empty])
                             | Some r \<Rightarrow> (r, st));
               st2 = st1[cco := (st1 ! cco)(''from'' \<mapsto> JStr (signer operation))]
           in cancelOperationByHash operationHash (Some cco) st2))"

section \<open>Well-typed inputs and the digests the spec describes\<close>

text \<open>
  The data model of the spec: an integer field is a \<open>u256\<close> (the tags \<open>actionType\<close>,
  \<open>denomination\<close> and \<open>ref\<close> a \<open>u8\<close>), an address is hexadecimal text of 20 bytes.
\<close>

definition isUint256 :: "int \<Rightarrow> bool" where
  "isUint256 n = (0 \<le> n \<and> n < 2 ^ 256)"

text \<open>A network id: a whole JavaScript number from 0 up to \<open>2 ^ 53 - 1\<close>.\<close>

definition isNetworkId :: "int \<Rightarrow> bool" where
  "isNetworkId n = (0 \<le> n \<and> n < 2 ^ 53)"

definition isUint8 :: "int \<Rightarrow> bool" where
  "isUint8 n = (0 \<le> n \<and> n < 256)"

definition isAddress :: "address \<Rightarrow> bool" where
  "isAddress a = (case hexToBytes a of None \<Rightarrow> False | Some bs \<Rightarrow> length bs = 20)"

definition addressBytes :: "address \<Rightarrow> bytes" where
  "addressBytes a = (case hexToBytes a of None \<Rightarrow> [] | Some bs \<Rightarrow> bs)"

definition wfAssetAmount :: "AssetAmount \<Rightarrow> bool" where
  "wfAssetAmount amt =
     (isUint8 (denomination amt) \<and> isUint8 (ref amt) \<and> isUint256 (value amt))"

definition wfAction :: "Action \<Rightarrow> bool" where
  "wfAction a =
     (isUint8 (actionType a) \<and> isAddress (primaryAccountOwner a) \<and>
      isUint256 (primaryAccountNumber a) \<and> wfAssetAmount (amount a) \<and>
      isUint256 (primaryMarketId a) \<and> isUint256 (secondaryMarketId a) \<and>
      isAddress (otherAddress a) \<and> isAddress (secondaryAccountOwner a) \<and>
      isUint256 (secondaryAccountNumber a))"

definition wfOperation :: "'a Operation_scheme \<Rightarrow> bool" where
  "wfOperation operation =
     (list_all wfAction (actions operation) \<and> isUint256 (expiration operation) \<and>
      isUint256 (salt operation) \<and> isAddress (sender operation))"

definition wfConfig :: "'a SignedOperations_scheme \<Rightarrow> bool" where
  "wfConfig this = (isNetworkId (networkId this) \<and> isAddress (proxyAddress this))"

text \<open>
  The digests in the words of the spec (section 4.3): each is the hash of a
  concatenation of 32-byte fields, in field order.
\<close>

definition spec_hashAssetAmount :: "(bytes \<Rightarrow> digest) \<Rightarrow> AssetAmount \<Rightarrow> digest" where
  "spec_hashAssetAmount K amt =
     K (digestBytes (K (utf8 EIP712_ASSET_AMOUNT_STRING)) @
        uint256Bytes (if sign amt then 1 else 0) @
        uint256Bytes (denomination amt) @
        uint256Bytes (ref amt) @
        uint256Bytes (value amt))"

definition spec_hashAction :: "(bytes \<Rightarrow> digest) \<Rightarrow> Action \<Rightarrow> digest" where
  "spec_hashAction K act =
     K (digestBytes (K (utf8 EIP712_ACTION_STRING)) @
        uint256Bytes (actionType act) @
        leftPad32 (addressBytes (primaryAccountOwner act)) @
        uint256Bytes (primaryAccountNumber act) @
        digestBytes (spec_hashAssetAmount K (amount act)) @
        uint256Bytes (primaryMarketId act) @
        uint256Bytes (secondaryMarketId act) @
        leftPad32 (addressBytes (otherAddress act)) @
        leftPad32 (addressBytes (secondaryAccountOwner act)) @
        uint256Bytes (secondaryAccountNumber act) @
        digestBytes (K (data act)))"

definition spec_actionsPreimage :: "(bytes \<Rightarrow> digest) \<Rightarrow> Action list \<Rightarrow> bytes" where
  "spec_actionsPreimage K acts = concat (map (\<lambda>act. digestBytes (spec_hashAction K act)) acts)"

definition spec_hashActions :: "(bytes \<Rightarrow> digest) \<Rightarrow> Action list \<Rightarrow> digest" where
  "spec_hashActions K acts = K (spec_actionsPreimage K acts)"

definition spec_domainHash ::
  "(bytes \<Rightarrow> digest) \<Rightarrow> string \<Rightarrow> 'a SignedOperations_scheme \<Rightarrow> digest" where
  "spec_domainHash K D this =
     K (digestBytes (K (utf8 D)) @
        digestBytes (K (utf8 ''SignedOperationProxy'')) @
        digestBytes (K (utf8 ''1.0'')) @
        uint256Bytes (networkId this) @
        leftPad32 (addressBytes (proxyAddress this)))"

definition spec_basicHash :: "(bytes \<Rightarrow> digest) \<Rightarrow> 'a Operation_scheme \<Rightarrow> digest" where
  "spec_basicHash K operation =
     K (digestBytes (K (utf8 EIP712_OPERATION_STRING)) @
        digestBytes (spec_hashActions K (actions operation)) @
        uint256Bytes (expiration operation) @
        uint256Bytes (salt operation) @
        leftPad32 (addressBytes (sender operation)))"

definition spec_hashOperation ::
  "(bytes \<Rightarrow> digest) \<Rightarrow> string \<Rightarrow> 'a SignedOperations_scheme \<Rightarrow> 'b Operation_scheme \<Rightarrow> digest" where
  "spec_hashOperation K D this operation =
     K ([0x19, 0x01] @
        digestBytes (spec_domainHash K D this) @
        digestBytes (spec_basicHash K operation))"

text \<open>
  The type signature string in the words of the spec (section 4.2):
  \<open>TypeName(type1 name1,type2 name2,...)\<close>, from the ordered field list.
\<close>

fun joinComma :: "string list \<Rightarrow> string" where
  "joinComma [] = []"
| "joinComma [x] = x"
| "joinComma (x # y # r) = x @ '','' @ joinComma (y # r)"

definition spec_typeString :: "string \<Rightarrow> (string \<times> string) list \<Rightarrow> string" where
  "spec_typeString typeName fieldList =
     typeName @ ''('' @ joinComma (map (\<lambda>(t, n). t @ '' '' @ n) fieldList) @ '')''"

section \<open>Concrete inputs\<close>

text \<open>
  A stand-in for Keccak-256 that can be evaluated, and well-typed values, for the
  concrete instances below.
\<close>

definition K0 :: "bytes \<Rightarrow> digest" where
  "K0 bs = word_of_nat (length bs) + 1"

definition address0 :: address where
  "address0 = ''0x0000000000000000000000000000000000000000''"

definition addressA :: address where
  "addressA = ''0xAbCdEf0123456789aBcDeF0123456789ABCDEF01''"

definition addressB :: address where
  "addressB = ''0x00000000000000000000000000000000000000b2''"

definition config1 :: SignedOperations where
  "config1 = \<lparr> networkId = 1, proxyAddress = addressB \<rparr>"

definition amount1 :: AssetAmount where
  "amount1 = \<lparr> sign = True, denomination = 0, ref = 1, value = 1000 \<rparr>"

definition action1 :: Action where
  "action1 =
     \<lparr> actionType = 0, primaryAccountOwner = addressA, primaryAccountNumber = 7,
       amount = amount1, primaryMarketId = 2, secondaryMarketId = 3,
       otherAddress = addressB, secondaryAccountOwner = addressB,
       secondaryAccountNumber = 0, data = [] \<rparr>"

definition operation1 :: Operation where
  "operation1 =
     \<lparr> actions = [action1], expiration = 1700000000, salt = 42,
       sender = addressA, signer = addressB \<rparr>"

definition emptyOperation :: Operation where
  "emptyOperation =
     \<lparr> actions = [], expiration = 0, salt = 0, sender = address0, signer = addressB \<rparr>"

text \<open>
  A stand-in for the recovery procedures: tag 1 is recognised, a raw signature is
  well-formed when it has 65 bytes, and every such signature recovers \<open>addressA\<close>.
\<close>

definition R0 :: recovery where
  "R0 tag =
     (if tag = 1 then Some (\<lambda>hash raw. if length raw = 65 then Some addressA else None)
      else None)"

definition signature1 :: string where
  "signature1 = ''0x'' @ concat (replicate 65 ''1b'') @ ''01''"

definition instance1 :: SignedOperationsInstance where
  "instance1 =
     \<lparr> networkId = 1, proxyAddress = addressB,
       currentProvider = ''http://localhost:8545'', otherContracts = [address0] \<rparr>"

definition emptySignedOperation :: SignedOperation where
  "emptySignedOperation = Operation.extend emptyOperation \<lparr> typedSignature = signature1 \<rparr>"

definition signedOperation1 :: SignedOperation where
  "signedOperation1 = Operation.extend operation1 \<lparr> typedSignature = signature1 \<rparr>"

section \<open>Decimal text reads back\<close>

lemma of_char_digitChar: "d < 10 \<Longrightarrow> (of_char (digitChar d) :: nat) = 48 + d"
  by (simp add: digitChar_def)

lemma digitVal_digitChar: "d < 10 \<Longrightarrow> digitVal (digitChar d) = Some d"
  by (simp add: digitVal_def of_char_digitChar)

lemma showNat_nonempty: "showNat n \<noteq> []"
  by (subst showNat.simps) simp

lemma fold_showNat: "fold readStep (showNat n) (Some 0) = Some n"
proof (induction n rule: showNat.induct)
  case (1 n)
  show ?case
  proof (cases "n < 10")
    case True
    then show ?thesis
      by (subst showNat.simps) (simp add: readStep_def digitVal_digitChar)
  next
    case False
    with 1 have ih: "fold readStep (showNat (n div 10)) (Some 0) = Some (n div 10)"
      by simp
    have "n mod 10 < 10" by simp
    then have dv: "digitVal (digitChar (n mod 10)) = Some (n mod 10)"
      by (rule digitVal_digitChar)
    from False show ?thesis
      by (subst showNat.simps) (simp add: ih readStep_def dv)
  qed
qed

lemma readNat_showNat: "readNat (showNat n) = Some n"
  by (simp add: readNat_def showNat_nonempty fold_showNat)

lemma hd_showNat: "hd (showNat n) \<noteq> CHR ''-''"
proof (induction n rule: showNat.induct)
  case (1 n)
  show ?case
  proof (cases "n < 10")
    case True
    then show ?thesis
      using of_char_digitChar [of n] by (subst showNat.simps) auto
  next
    case False
    with 1 show ?thesis
      by (subst showNat.simps) (simp add: showNat_nonempty)
  qed
qed

lemma readDecimal_decimal: "readDecimal (decimal n) = Some n"
proof (cases "n < 0")
  case True
  then show ?thesis by (simp add: readDecimal_def decimal_def readNat_showNat)
next
  case False
  obtain c r where cr: "showNat (nat n) = c # r"
    using showNat_nonempty [of "nat n"] by (cases "showNat (nat n)") auto
  with hd_showNat [of "nat n"] have "c \<noteq> CHR ''-''" by simp
  with False cr readNat_showNat [of "nat n"] show ?thesis
    by (simp add: readDecimal_def decimal_def)
qed

section \<open>Packing of well-typed arguments\<close>

lemma length_digestBytes: "length (digestBytes w) = 32"
  by (simp add: digestBytes_def)

lemma digestBytes_nonempty: "digestBytes w \<noteq> []"
  using length_digestBytes [of w] by auto

lemma isUint8_isUint256: "isUint8 n \<Longrightarrow> isUint256 n"
  by (simp add: isUint8_def isUint256_def)

lemma pack_toString:
  "isUint256 n \<Longrightarrow> solidityPack (Uint256 (NumStr (toString n))) = Inr (uint256Bytes n)"
  by (simp add: isUint256_def toString_def readDecimal_decimal packUint256_def)

lemma pack_Num:
  "isNetworkId n \<Longrightarrow> solidityPack (Uint256 (Num n)) = Inr (uint256Bytes n)"
  by (simp add: isNetworkId_def packUint256_def)

lemma pack_Num_unsafe:
  "2 ^ 53 \<le> \<bar>n\<bar> \<Longrightarrow> solidityPack (Uint256 (Num n)) = Inl AssertionFailed"
  by simp

lemma pack_digest: "solidityPack (Bytes32 (Hex (digestBytes d))) = Inr (digestBytes d)"
  by (simp add: length_digestBytes)

lemma pack_hashString: "solidityPack (Bytes32 (hashString K s)) = Inr (digestBytes (K (utf8 s)))"
  by (simp add: hashString_def length_digestBytes)

lemma pack_hashBytes: "solidityPack (Bytes32 (hashBytes K bs)) = Inr (digestBytes (K bs))"
  by (simp add: hashBytes_def length_digestBytes)

lemma pack_address:
  "isAddress a \<Longrightarrow> solidityPack (Bytes32 (addressToBytes32 a)) = Inr (leftPad32 (addressBytes a))"
  by (auto simp: isAddress_def addressToBytes32_def addressBytes_def leftPad32_def
      split: option.splits)

lemma soliditySha3_packed:
  "packAll args = Inr bs \<Longrightarrow> bs \<noteq> [] \<Longrightarrow> soliditySha3 K args = Inr (Hex (digestBytes (K bs)))"
  by (simp add: soliditySha3_def sha3_def)

lemma soliditySha3_result:
  "soliditySha3 K args = Inr h \<Longrightarrow> h = Null \<or> (\<exists>d. h = Hex (digestBytes d))"
  by (auto simp: soliditySha3_def sha3_def split: sum.splits if_splits)

section \<open>The hashing functions on well-typed inputs\<close>

lemma getAssetAmountHash_digest:
  assumes "wfAssetAmount amt"
  shows "getAssetAmountHash K amt = Inr (Hex (digestBytes (spec_hashAssetAmount K amt)))"
proof -
  define b :: int where "b = (if sign amt then 1 else 0)"
  from assms have u: "isUint256 (denomination amt)" "isUint256 (ref amt)" "isUint256 (value amt)"
    by (simp_all add: wfAssetAmount_def isUint8_isUint256)
  have s: "isUint256 b"
    by (simp add: isUint256_def b_def)
  have "soliditySha3 K
          [Bytes32 (hashString K EIP712_ASSET_AMOUNT_STRING),
           Uint256 (NumStr (toString b)),
           Uint256 (NumStr (toString (denomination amt))),
           Uint256 (NumStr (toString (ref amt))),
           Uint256 (NumStr (toString (value amt)))]
        = Inr (Hex (digestBytes (K (digestBytes (K (utf8 EIP712_ASSET_AMOUNT_STRING)) @
             uint256Bytes b @ uint256Bytes (denomination amt) @ uint256Bytes (ref amt) @
             uint256Bytes (value amt)))))"
    by (rule soliditySha3_packed)
      (simp_all add: pack_hashString pack_toString u s digestBytes_nonempty
        del: solidityPack.simps)
  then show ?thesis
    unfolding getAssetAmountHash_def spec_hashAssetAmount_def b_def .
qed

lemma getActionHash_digest:
  assumes "wfAction act"
  shows "getActionHash K act = Inr (Hex (digestBytes (spec_hashAction K act)))"
proof -
  from assms have amt: "wfAssetAmount (amount act)"
    by (simp add: wfAction_def)
  from assms have u: "isUint256 (actionType act)" "isUint256 (primaryAccountNumber act)"
    "isUint256 (primaryMarketId act)" "isUint256 (secondaryMarketId act)"
    "isUint256 (secondaryAccountNumber act)"
    by (simp_all add: wfAction_def isUint8_isUint256)
  from assms have a: "isAddress (primaryAccountOwner act)" "isAddress (otherAddress act)"
    "isAddress (secondaryAccountOwner act)"
    by (simp_all add: wfAction_def)
  have "soliditySha3 K
          [Bytes32 (hashString K EIP712_ACTION_STRING),
           Uint256 (NumStr (toString (actionType act))),
           Bytes32 (addressToBytes32 (primaryAccountOwner act)),
           Uint256 (NumStr (toString (primaryAccountNumber act))),
           Bytes32 (Hex (digestBytes (spec_hashAssetAmount K (amount act)))),
           Uint256 (NumStr (toString (primaryMarketId act))),
           Uint256 (NumStr (toString (secondaryMarketId act))),
           Bytes32 (addressToBytes32 (otherAddress act)),
           Bytes32 (addressToBytes32 (secondaryAccountOwner act)),
           Uint256 (NumStr (toString (secondaryAccountNumber act))),
           Bytes32 (hashBytes K (data act))]
        = Inr (Hex (digestBytes (spec_hashAction K act)))"
    unfolding spec_hashAction_def
    by (rule soliditySha3_packed)
      (simp_all add: pack_hashString pack_toString pack_address pack_digest pack_hashBytes
        u a digestBytes_nonempty del: solidityPack.simps)
  then show ?thesis
    by (simp add: getActionHash_def getAssetAmountHash_digest [OF amt])
qed

lemma actionsAsHashes_digests:
  "list_all wfAction acts \<Longrightarrow>
   actionsAsHashes K acts = Inr (map (\<lambda>act. Bytes32 (Hex (digestBytes (spec_hashAction K act)))) acts)"
  by (induction acts) (simp_all add: getActionHash_digest)

lemma packAll_actionDigests:
  "packAll (map (\<lambda>act. Bytes32 (Hex (digestBytes (spec_hashAction K act)))) acts)
   = Inr (spec_actionsPreimage K acts)"
  by (induction acts) (simp_all add: spec_actionsPreimage_def length_digestBytes)

lemma spec_actionsPreimage_nonempty: "acts \<noteq> [] \<Longrightarrow> spec_actionsPreimage K acts \<noteq> []"
  by (cases acts) (simp_all add: spec_actionsPreimage_def digestBytes_nonempty)

lemma getActionsHash_digest:
  assumes "list_all wfAction acts" and "acts \<noteq> []"
  shows "getActionsHash K acts = Inr (Hex (digestBytes (spec_hashActions K acts)))"
  using soliditySha3_packed [OF packAll_actionDigests spec_actionsPreimage_nonempty [OF assms(2)]]
  by (simp add: getActionsHash_def actionsAsHashes_digests [OF assms(1)] spec_hashActions_def)

lemma getActionsHash_Nil: "getActionsHash K [] = Inr Null"
  by (simp add: getActionsHash_def soliditySha3_def sha3_def)

lemma getDomainHash_digest:
  assumes "wfConfig this"
  shows "getDomainHash K D this = Inr (Hex (digestBytes (spec_domainHash K D this)))"
proof -
  from assms have n: "isNetworkId (networkId this)" and a: "isAddress (proxyAddress this)"
    by (simp_all add: wfConfig_def)
  show ?thesis
    unfolding getDomainHash_def spec_domainHash_def
    by (rule soliditySha3_packed)
      (simp_all add: pack_hashString pack_Num pack_address n a digestBytes_nonempty
        del: solidityPack.simps)
qed

lemma basicHash_digest:
  assumes "isUint256 (expiration operation)" and "isUint256 (salt operation)"
    and "isAddress (sender operation)"
  shows "soliditySha3 K
           [Bytes32 (hashString K EIP712_OPERATION_STRING),
            Bytes32 (Hex (digestBytes ah)),
            Uint256 (NumStr (toString (expiration operation))),
            Uint256 (NumStr (toString (salt operation))),
            Bytes32 (addressToBytes32 (sender operation))]
         = Inr (Hex (digestBytes (K (digestBytes (K (utf8 EIP712_OPERATION_STRING)) @
              digestBytes ah @ uint256Bytes (expiration operation) @
              uint256Bytes (salt operation) @ leftPad32 (addressBytes (sender operation))))))"
  by (rule soliditySha3_packed)
    (simp_all add: pack_hashString pack_toString pack_address pack_digest assms
      digestBytes_nonempty del: solidityPack.simps)

lemma finalHash_digest:
  "soliditySha3 K [BytesDyn [0x19, 0x01], Bytes32 (Hex (digestBytes dh)), Bytes32 (Hex (digestBytes bh))]
   = Inr (Hex (digestBytes (K ([0x19, 0x01] @ digestBytes dh @ digestBytes bh))))"
  by (rule soliditySha3_packed) (simp_all add: length_digestBytes)

lemma getOperationHash_digest:
  assumes "wfConfig this" and "wfOperation operation" and "actions operation \<noteq> []"
  shows "getOperationHash K D this operation
         = Inr (Hex (digestBytes (spec_hashOperation K D this operation)))"
proof -
  from assms(2) have acts: "list_all wfAction (actions operation)"
    and f: "isUint256 (expiration operation)" "isUint256 (salt operation)"
      "isAddress (sender operation)"
    by (simp_all add: wfOperation_def)
  show ?thesis
    by (simp add: getOperationHash_def getActionsHash_digest [OF acts assms(3)]
        basicHash_digest [OF f] getDomainHash_digest [OF assms(1)] finalHash_digest
        spec_hashOperation_def spec_basicHash_def
        del: solidityPack.simps)
qed

lemma getOperationHash_result:
  assumes "getOperationHash K D this operation = Inr h"
  shows "\<exists>d. h = Hex (digestBytes d)"
proof -
  from assms obtain dh bh where
    "soliditySha3 K [BytesDyn [0x19, 0x01], Bytes32 dh, Bytes32 bh] = Inr h"
    by (auto simp: getOperationHash_def split: sum.splits)
  then obtain bs where "packAll [BytesDyn [0x19, 0x01], Bytes32 dh, Bytes32 bh] = Inr bs"
    and h: "h = sha3 K bs"
    by (auto simp: soliditySha3_def split: sum.splits)
  then have "bs \<noteq> []"
    by (auto split: sum.splits)
  with h show ?thesis
    by (auto simp: sha3_def)
qed

lemma getOperationHash_no_actions_raises:
  "actions operation = [] \<Longrightarrow> getOperationHash K D this operation = Inl TypeError"
  by (simp add: getOperationHash_def getActionsHash_Nil soliditySha3_def pack_hashString
      del: solidityPack.simps(3))

lemma cancel_digest:
  "operationHashToCancelOperationHash K (Hex (digestBytes d))
     = Inr (Hex (digestBytes (K (utf8 ''cancel'' @ digestBytes d))))"
proof -
  have "packAll [Str ''cancel'', Bytes32 (Hex (digestBytes d))] = Inr (utf8 ''cancel'' @ digestBytes d)"
    by (simp add: length_digestBytes)
  moreover have "utf8 ''cancel'' @ digestBytes d \<noteq> []"
    by (simp add: digestBytes_nonempty)
  ultimately show ?thesis
    unfolding operationHashToCancelOperationHash_def by (rule soliditySha3_packed)
qed

section \<open>The order of the actions\<close>

lemma digestBytes_byte:
  assumes "digestBytes a = digestBytes b" and "i < 32"
  shows "(ucast (drop_bit (8 * i) a) :: byte) = ucast (drop_bit (8 * i) b)"
proof -
  from assms(1) have "\<forall>j \<in> set (rev [0..<32]).
      (ucast (drop_bit (8 * j) a) :: byte) = ucast (drop_bit (8 * j) b)"
    unfolding digestBytes_def map_eq_conv .
  with assms(2) show ?thesis by simp
qed

lemma digestBytes_inj:
  assumes "digestBytes a = digestBytes b"
  shows "a = b"
proof (rule bit_eqI)
  fix n
  assume "possible_bit TYPE(256 word) n"
  then have n: "n < 256" by (simp add: possible_bit_word)
  then have i: "n div 8 < 32" by simp
  have "bit a n \<longleftrightarrow> bit (ucast (drop_bit (8 * (n div 8)) a) :: byte) (n mod 8)"
    by (simp add: bit_ucast_iff bit_drop_bit_eq)
  also have "\<dots> \<longleftrightarrow> bit (ucast (drop_bit (8 * (n div 8)) b) :: byte) (n mod 8)"
    by (simp only: digestBytes_byte [OF assms i])
  also have "\<dots> \<longleftrightarrow> bit b n"
    by (simp add: bit_ucast_iff bit_drop_bit_eq)
  finally show "bit a n \<longleftrightarrow> bit b n" .
qed

lemma concat_digests_inj:
  "length xs = length ys \<Longrightarrow>
   concat (map digestBytes xs) = concat (map digestBytes ys) \<Longrightarrow> xs = ys"
proof (induction xs ys rule: list_induct2)
  case Nil
  show ?case by simp
next
  case (Cons x xs y ys)
  from Cons.prems have "digestBytes x = digestBytes y
      \<and> concat (map digestBytes xs) = concat (map digestBytes ys)"
    by (simp add: length_digestBytes)
  with Cons.IH show ?case
    by (simp add: digestBytes_inj)
qed

text \<open>
  Where no two of the actions collide under the hash, two action lists of the same
  length that differ (so also two different orders of the same actions) have different
  pre-images.
\<close>

lemma actions_order_changes_preimage:
  assumes "inj_on (spec_hashAction K) (set xs \<union> set ys)"
    and "length xs = length ys" and "xs \<noteq> ys"
  shows "spec_actionsPreimage K xs \<noteq> spec_actionsPreimage K ys"
proof
  assume "spec_actionsPreimage K xs = spec_actionsPreimage K ys"
  then have "concat (map digestBytes (map (spec_hashAction K) xs))
      = concat (map digestBytes (map (spec_hashAction K) ys))"
    by (simp add: spec_actionsPreimage_def comp_def)
  with assms(2) have "map (spec_hashAction K) xs = map (spec_hashAction K) ys"
    by (intro concat_digests_inj) simp_all
  with assms(1) have "xs = ys"
    by (simp add: inj_on_map_eq_map)
  with assms(3) show False by simp
qed

section \<open>Signature recovery\<close>

lemma ecRecover_errors:
  "ecRecoverTypedSignature R h s = Inl e \<Longrightarrow> e = InvalidSignature \<or> e = UnsupportedSignatureType"
  by (auto simp: ecRecoverTypedSignature_def split: option.splits if_splits)

lemma ecRecover_not_hex:
  "hexToBytes s = None \<Longrightarrow> ecRecoverTypedSignature R h s = Inl InvalidSignature"
  by (simp add: ecRecoverTypedSignature_def)

lemma ecRecover_unknown_tag:
  "hexToBytes s = Some bs \<Longrightarrow> bs \<noteq> [] \<Longrightarrow> R (last bs) = None \<Longrightarrow>
   ecRecoverTypedSignature R h s = Inl UnsupportedSignatureType"
  by (simp add: ecRecoverTypedSignature_def)

lemma ecRecover_bad_raw:
  "hexToBytes s = Some bs \<Longrightarrow> bs \<noteq> [] \<Longrightarrow> R (last bs) = Some recover \<Longrightarrow>
   recover h (butlast bs) = None \<Longrightarrow> ecRecoverTypedSignature R h s = Inl InvalidSignature"
  by (simp add: ecRecoverTypedSignature_def)

section \<open>The concrete inputs are well-typed\<close>

lemma wf_config1: "wfConfig config1"
  by code_simp

lemma wf_operation1: "wfOperation operation1"
  by code_simp

lemma actions_operation1: "actions operation1 \<noteq> []"
  by (simp add: operation1_def)

lemma operation1_digest:
  "getOperationHash K0 D config1 operation1
   = Inr (Hex (digestBytes (spec_hashOperation K0 D config1 operation1)))"
  by (rule getOperationHash_digest [OF wf_config1 wf_operation1 actions_operation1])

lemma wf_emptyOperation: "wfOperation emptyOperation"
  by code_simp

lemma wf_signedOperation1: "wfOperation signedOperation1 \<and> actions signedOperation1 \<noteq> []"
  by code_simp

lemma signedOperation1_digest:
  "getOperationHash K0 D config1 signedOperation1
   = Inr (Hex (digestBytes (spec_hashOperation K0 D config1 signedOperation1)))"
  using wf_signedOperation1 by (intro getOperationHash_digest wf_config1) simp_all

lemma recover_signature1: "ecRecoverTypedSignature R0 h signature1 = Inr addressA"
proof -
  have "hexToBytes signature1 = Some (replicate 65 0x1b @ [0x01])"
    by code_simp
  then show ?thesis
    by (simp add: ecRecoverTypedSignature_def R0_def)
qed

lemma recover_unknown_tag: "ecRecoverTypedSignature R0 h ''0x1b02'' = Inl UnsupportedSignatureType"
proof -
  have "hexToBytes ''0x1b02'' = Some [0x1b, 0x02]"
    by code_simp
  then show ?thesis
    by (simp add: ecRecoverTypedSignature_def R0_def)
qed

lemma signers_differ: "toLowerCase addressA \<noteq> toLowerCase addressB"
  by code_simp

lemma wf_badSignature:
  "wfOperation (signedOperation1\<lparr>typedSignature := ''0xzz''\<rparr>)
   \<and> actions (signedOperation1\<lparr>typedSignature := ''0xzz''\<rparr>) \<noteq> []"
  by code_simp

lemma badSignature_digest:
  "getOperationHash K0 D config1 (signedOperation1\<lparr>typedSignature := ''0xzz''\<rparr>)
   = Inr (Hex (digestBytes (spec_hashOperation K0 D config1
       (signedOperation1\<lparr>typedSignature := ''0xzz''\<rparr>))))"
  using wf_badSignature by (intro getOperationHash_digest wf_config1) simp_all

lemma wf_lowerSigner:
  "wfOperation (signedOperation1\<lparr>signer := toLowerCase addressA\<rparr>)
   \<and> actions (signedOperation1\<lparr>signer := toLowerCase addressA\<rparr>) \<noteq> []"
  by code_simp

lemma lowerSigner_digest:
  "getOperationHash K0 D config1 (signedOperation1\<lparr>signer := toLowerCase addressA\<rparr>)
   = Inr (Hex (digestBytes (spec_hashOperation K0 D config1
       (signedOperation1\<lparr>signer := toLowerCase addressA\<rparr>))))"
  using wf_lowerSigner by (intro getOperationHash_digest wf_config1) simp_all

lemma lower_addressA: "toLowerCase (toLowerCase addressA) = toLowerCase addressA
  \<and> toLowerCase addressA \<noteq> addressA"
  by code_simp

lemma not_hex_zz: "hexToBytes ''0xzz'' = None"
  by code_simp

section \<open>The network id\<close>

lemma uint256Bytes_inj:
  assumes "isUint256 a" and "isUint256 b" and "uint256Bytes a = uint256Bytes b"
  shows "a = b"
proof -
  from assms(3) have "(word_of_int a :: digest) = word_of_int b"
    unfolding uint256Bytes_def by (rule digestBytes_inj)
  then have "take_bit 256 a = take_bit 256 b"
    by (simp add: word_of_int_eq_iff)
  moreover from assms(1) have "take_bit 256 a = a"
    by (simp add: isUint256_def take_bit_int_eq_self)
  moreover from assms(2) have "take_bit 256 b = b"
    by (simp add: isUint256_def take_bit_int_eq_self)
  ultimately show ?thesis by simp
qed

lemma isNetworkId_isUint256: "isNetworkId n \<Longrightarrow> isUint256 n"
proof -
  assume "isNetworkId n"
  then have "0 \<le> n" and "n < 2 ^ 53" by (simp_all add: isNetworkId_def)
  moreover have "(2::int) ^ 53 \<le> 2 ^ 256" by simp
  ultimately show ?thesis by (simp add: isUint256_def)
qed

lemma getDomainHash_unsafe_networkId:
  "2 ^ 53 \<le> \<bar>networkId this\<bar> \<Longrightarrow> getDomainHash K D this = Inl AssertionFailed"
  by (simp add: getDomainHash_def soliditySha3_def pack_hashString pack_Num_unsafe
      del: solidityPack.simps)

lemma length_uint256Bytes: "length (uint256Bytes n) = 32"
  by (simp add: uint256Bytes_def length_digestBytes)

section \<open>The signature predicates\<close>

lemma operationHasValidSignature_no_actions:
  "actions signedOperation = [] \<Longrightarrow>
   operationHasValidSignature K D R this signedOperation = Inl TypeError"
  by (simp add: operationHasValidSignature_def getOperationHash_no_actions_raises)

lemma cancelOperationHasValidSignature_no_actions:
  "actions operation = [] \<Longrightarrow>
   cancelOperationHasValidSignature K D R this operation typedSig = Inl TypeError"
  by (simp add: cancelOperationHasValidSignature_def getOperationHash_no_actions_raises)

lemma emptySignedOperation_fields:
  "actions emptySignedOperation = [] \<and> typedSignature emptySignedOperation = signature1
   \<and> signer emptySignedOperation = addressB"
  by (simp add: emptySignedOperation_def Operation.extend_def emptyOperation_def)

lemma wf_emptySignedOperation: "wfOperation emptySignedOperation"
  by code_simp

text \<open>
  Where the operation has the digest \<open>d\<close>, the predicates recover an address from \<open>d\<close>
  (from the cancel digest of \<open>d\<close>) and the typed signature. A recovered address gives
  the boolean of its case-insensitive comparison with the claimed signer; a failed
  recovery is passed on as it is, and it is \<open>InvalidSignature\<close> or
  \<open>UnsupportedSignatureType\<close>.
\<close>

lemma recovery_decides_predicates:
  assumes "getOperationHash K D this signedOperation = Inr (Hex (digestBytes d))"
  shows
    "(\<forall>a. ecRecoverTypedSignature R (Hex (digestBytes d)) (typedSignature signedOperation) = Inr a
        \<longrightarrow> operationHasValidSignature K D R this signedOperation
             = Inr (toLowerCase a = toLowerCase (signer signedOperation)))
     \<and> (\<forall>e. ecRecoverTypedSignature R (Hex (digestBytes d)) (typedSignature signedOperation) = Inl e
        \<longrightarrow> operationHasValidSignature K D R this signedOperation = Inl e
            \<and> (e = InvalidSignature \<or> e = UnsupportedSignatureType))
     \<and> (\<forall>a. ecRecoverTypedSignature R (Hex (digestBytes (K (utf8 ''cancel'' @ digestBytes d))))
              typedSig = Inr a
        \<longrightarrow> cancelOperationHasValidSignature K D R this signedOperation typedSig
             = Inr (toLowerCase a = toLowerCase (signer signedOperation)))
     \<and> (\<forall>e. ecRecoverTypedSignature R (Hex (digestBytes (K (utf8 ''cancel'' @ digestBytes d))))
              typedSig = Inl e
        \<longrightarrow> cancelOperationHasValidSignature K D R this signedOperation typedSig = Inl e
            \<and> (e = InvalidSignature \<or> e = UnsupportedSignatureType))"
  using assms
  by (auto simp: operationHasValidSignature_def operationByHashHasValidSignature_def
      cancelOperationHasValidSignature_def cancelOperationByHashHasValidSignature_def
      cancel_digest addressesAreEqual_def dest: ecRecover_errors)

lemma recovery_decides_predicates_examples:
  "getOperationHash K0 ''EIP712Domain()'' config1 signedOperation1
     = Inr (Hex (digestBytes (spec_hashOperation K0 ''EIP712Domain()'' config1 signedOperation1)))
   \<and> ecRecoverTypedSignature R0
        (Hex (digestBytes (spec_hashOperation K0 ''EIP712Domain()'' config1 signedOperation1)))
        (typedSignature signedOperation1) = Inr addressA
   \<and> operationHasValidSignature K0 ''EIP712Domain()'' R0 config1 signedOperation1 = Inr False
   \<and> operationHasValidSignature K0 ''EIP712Domain()'' R0 config1
        (signedOperation1\<lparr>signer := toLowerCase addressA\<rparr>) = Inr True
   \<and> operationHasValidSignature K0 ''EIP712Domain()'' R0 config1
        (signedOperation1\<lparr>typedSignature := ''0xzz''\<rparr>) = Inl InvalidSignature
   \<and> cancelOperationHasValidSignature K0 ''EIP712Domain()'' R0 config1 signedOperation1 signature1
       = Inr False
   \<and> ecRecoverTypedSignature R0
        (Hex (digestBytes (K0 (utf8 ''cancel'' @
           digestBytes (spec_hashOperation K0 ''EIP712Domain()'' config1 signedOperation1)))))
        ''0x1b02'' = Inl UnsupportedSignatureType
   \<and> cancelOperationHasValidSignature K0 ''EIP712Domain()'' R0 config1 signedOperation1 ''0x1b02''
       = Inl UnsupportedSignatureType"
proof -
  have t: "typedSignature signedOperation1 = signature1"
    by (simp add: signedOperation1_def Operation.extend_def)
  have s: "signer signedOperation1 = addressB"
    by (simp add: signedOperation1_def Operation.extend_def operation1_def)
  from recovery_decides_predicates [where R = R0 and typedSig = "''0x1b02''",
      OF signedOperation1_digest [of "''EIP712Domain()''"]]
  have a: "operationHasValidSignature K0 ''EIP712Domain()'' R0 config1 signedOperation1 = Inr False"
    and b: "cancelOperationHasValidSignature K0 ''EIP712Domain()'' R0 config1 signedOperation1 ''0x1b02''
       = Inl UnsupportedSignatureType"
    by (simp_all add: t s recover_signature1 recover_unknown_tag signers_differ)
  from recovery_decides_predicates [where R = R0 and typedSig = signature1,
      OF signedOperation1_digest [of "''EIP712Domain()''"]]
  have c: "cancelOperationHasValidSignature K0 ''EIP712Domain()'' R0 config1 signedOperation1 signature1
       = Inr False"
    by (simp add: s recover_signature1 signers_differ)
  from recovery_decides_predicates [where R = R0 and typedSig = signature1,
      OF lowerSigner_digest [of "''EIP712Domain()''"]]
  have d: "operationHasValidSignature K0 ''EIP712Domain()'' R0 config1
        (signedOperation1\<lparr>signer := toLowerCase addressA\<rparr>) = Inr True"
    by (simp add: t recover_signature1 lower_addressA)
  from recovery_decides_predicates [where R = R0 and typedSig = signature1,
      OF badSignature_digest [of "''EIP712Domain()''"]]
  have e: "operationHasValidSignature K0 ''EIP712Domain()'' R0 config1
        (signedOperation1\<lparr>typedSignature := ''0xzz''\<rparr>) = Inl InvalidSignature"
    by (simp add: ecRecover_not_hex [OF not_hex_zz])
  from a b c d e show ?thesis
    by (simp add: signedOperation1_digest t recover_signature1 recover_unknown_tag)
qed

section \<open>The properties of the spec\<close>

text \<open>
  C1. For every Operation \<open>op\<close>, \<open>getOperationHash(op)\<close> is the hash of \<open>0x1901\<close>, the
  domain hash and the basic hash, the basic hash being the hash of the Operation type
  digest, \<open>hashActions(op.actions)\<close>, the expiration, the salt and the padded sender.
  That is lemma \<open>getOperationHash_digest\<close> for a well-typed operation with at least one
  action. For an operation without actions the code does not get that far:
  \<open>getActionsHash\<close> answers null, and packing null as the \<open>bytes32\<close> field of the basic
  hash raises a TypeError, whatever the other fields are.
\<close>

theorem getOperationHash_empty_actions:
  "getOperationHash K D this (operation\<lparr>actions := []\<rparr>) = Inl TypeError"
  by (rule getOperationHash_no_actions_raises) simp

text \<open>
  C2. Every hashing function is total on well-typed input, and the Operation with
  \<open>actions = []\<close>, \<open>expiration = 0\<close>, \<open>salt = 0\<close> and the zero sender has a fixed digest.
  The lemmas \<open>getAssetAmountHash_digest\<close>, \<open>getActionHash_digest\<close>, \<open>getActionsHash_digest\<close>,
  \<open>getDomainHash_digest\<close>, \<open>getOperationHash_digest\<close> and \<open>cancel_digest\<close> give the digest
  of every well-typed input with a non-empty action list. The Operation of the example
  is well-typed, and \<open>getOperationHash\<close> raises on it instead of returning a digest.
\<close>

theorem getOperationHash_spec_example:
  "wfConfig config1 \<and> wfOperation emptyOperation
   \<and> actions emptyOperation = [] \<and> expiration emptyOperation = 0
   \<and> salt emptyOperation = 0 \<and> sender emptyOperation = address0
   \<and> getOperationHash K D config1 emptyOperation = Inl TypeError"
proof -
  have "actions emptyOperation = []"
    by (simp add: emptyOperation_def)
  then show ?thesis
    by (simp add: wf_config1 wf_emptyOperation getOperationHash_no_actions_raises)
      (simp add: emptyOperation_def)
qed

text \<open>
  C3. Two Operations that agree on actions, expiration, salt and sender have the same
  \<open>getOperationHash\<close>: the signer does not flow into the digest (nor into the failure,
  where the hashing raises).
\<close>

theorem signer_not_hashed:
  assumes "actions op' = actions op" and "expiration op' = expiration op"
    and "salt op' = salt op" and "sender op' = sender op"
  shows "getOperationHash K D this op' = getOperationHash K D this op"
  unfolding getOperationHash_def assms ..

theorem signer_not_hashed_witness:
  "actions (operation1\<lparr>signer := addressA\<rparr>) = actions operation1
   \<and> expiration (operation1\<lparr>signer := addressA\<rparr>) = expiration operation1
   \<and> salt (operation1\<lparr>signer := addressA\<rparr>) = salt operation1
   \<and> sender (operation1\<lparr>signer := addressA\<rparr>) = sender operation1
   \<and> signer (operation1\<lparr>signer := addressA\<rparr>) \<noteq> signer operation1
   \<and> getOperationHash K0 ''EIP712Domain()'' config1 (operation1\<lparr>signer := addressA\<rparr>)
       = getOperationHash K0 ''EIP712Domain()'' config1 operation1"
proof -
  have d: "signer (operation1\<lparr>signer := addressA\<rparr>) \<noteq> signer operation1"
    by (simp add: operation1_def addressA_def addressB_def)
  have "getOperationHash K0 ''EIP712Domain()'' config1 (operation1\<lparr>signer := addressA\<rparr>)
       = getOperationHash K0 ''EIP712Domain()'' config1 operation1"
    by (rule signer_not_hashed) simp_all
  with d show ?thesis by simp
qed

text \<open>
  C4. For a network id that is a whole number from 0 up to \<open>2 ^ 53 - 1\<close> (from \<open>2 ^ 53\<close>
  on the packing of a JavaScript number fails, lemma \<open>getDomainHash_unsafe_networkId\<close>)
  and a contract address of 20 bytes, \<open>getDomainHash()\<close> is the hash of the concatenation
  of the domain type digest, \<open>hash("SignedOperationProxy")\<close>, \<open>hash("1.0")\<close>, the network
  id as a 32-byte integer and the contract address left-padded to 32 bytes. It reads
  nothing but the network id and the contract address: an instance that agrees on both,
  whatever else it holds, gives the same result. After the network id of the instance
  has changed, the call hashes the new id, and the bytes it hashes differ from those of
  the old id.
\<close>

theorem getDomainHash_formula:
  assumes "isNetworkId (networkId this)" and "isAddress (proxyAddress this)"
  shows "getDomainHash K D this
           = Inr (Hex (digestBytes (K (digestBytes (K (utf8 D)) @
                digestBytes (K (utf8 ''SignedOperationProxy'')) @
                digestBytes (K (utf8 ''1.0'')) @
                uint256Bytes (networkId this) @
                leftPad32 (addressBytes (proxyAddress this))))))
         \<and> (networkId this' = networkId this \<and> proxyAddress this' = proxyAddress this
              \<longrightarrow> getDomainHash K D this' = getDomainHash K D this)
         \<and> (isNetworkId n
              \<longrightarrow> getDomainHash K D (this\<lparr>networkId := n\<rparr>)
                  = Inr (Hex (digestBytes (K (digestBytes (K (utf8 D)) @
                      digestBytes (K (utf8 ''SignedOperationProxy'')) @
                      digestBytes (K (utf8 ''1.0'')) @
                      uint256Bytes n @
                      leftPad32 (addressBytes (proxyAddress this)))))))
         \<and> (isNetworkId n \<and> n \<noteq> networkId this
              \<longrightarrow> digestBytes (K (utf8 D)) @
                    digestBytes (K (utf8 ''SignedOperationProxy'')) @
                    digestBytes (K (utf8 ''1.0'')) @
                    uint256Bytes n @
                    leftPad32 (addressBytes (proxyAddress this))
                  \<noteq> digestBytes (K (utf8 D)) @
                    digestBytes (K (utf8 ''SignedOperationProxy'')) @
                    digestBytes (K (utf8 ''1.0'')) @
                    uint256Bytes (networkId this) @
                    leftPad32 (addressBytes (proxyAddress this)))"
proof -
  have c1: "getDomainHash K D this
           = Inr (Hex (digestBytes (K (digestBytes (K (utf8 D)) @
                digestBytes (K (utf8 ''SignedOperationProxy'')) @
                digestBytes (K (utf8 ''1.0'')) @
                uint256Bytes (networkId this) @
                leftPad32 (addressBytes (proxyAddress this))))))"
    using getDomainHash_digest [of this K D] assms
    by (simp add: wfConfig_def spec_domainHash_def)
  have c2: "networkId this' = networkId this \<and> proxyAddress this' = proxyAddress this
              \<longrightarrow> getDomainHash K D this' = getDomainHash K D this"
    by (simp add: getDomainHash_def)
  have c3: "isNetworkId n
              \<longrightarrow> getDomainHash K D (this\<lparr>networkId := n\<rparr>)
                  = Inr (Hex (digestBytes (K (digestBytes (K (utf8 D)) @
                      digestBytes (K (utf8 ''SignedOperationProxy'')) @
                      digestBytes (K (utf8 ''1.0'')) @
                      uint256Bytes n @
                      leftPad32 (addressBytes (proxyAddress this))))))"
    using getDomainHash_digest [of "this\<lparr>networkId := n\<rparr>" K D] assms(2)
    by (simp add: wfConfig_def spec_domainHash_def)
  have c4: "isNetworkId n \<and> n \<noteq> networkId this
              \<longrightarrow> digestBytes (K (utf8 D)) @
                    digestBytes (K (utf8 ''SignedOperationProxy'')) @
                    digestBytes (K (utf8 ''1.0'')) @
                    uint256Bytes n @
                    leftPad32 (addressBytes (proxyAddress this))
                  \<noteq> digestBytes (K (utf8 D)) @
                    digestBytes (K (utf8 ''SignedOperationProxy'')) @
                    digestBytes (K (utf8 ''1.0'')) @
                    uint256Bytes (networkId this) @
                    leftPad32 (addressBytes (proxyAddress this))"
    using uint256Bytes_inj [of n "networkId this"] assms(1)
    by (auto simp: length_uint256Bytes dest: isNetworkId_isUint256)
  from c1 c2 c3 c4 show ?thesis by (intro conjI)
qed

theorem getDomainHash_formula_witness:
  "isNetworkId (networkId config1) \<and> isAddress (proxyAddress config1)
   \<and> networkId instance1 = networkId config1
   \<and> proxyAddress instance1 = proxyAddress config1
   \<and> isNetworkId 5 \<and> 5 \<noteq> networkId config1
   \<and> getDomainHash K0 ''EIP712Domain()'' config1
       = Inr (Hex (digestBytes (K0 (digestBytes (K0 (utf8 ''EIP712Domain()'')) @
            digestBytes (K0 (utf8 ''SignedOperationProxy'')) @
            digestBytes (K0 (utf8 ''1.0'')) @
            uint256Bytes (networkId config1) @
            leftPad32 (addressBytes (proxyAddress config1))))))
   \<and> getDomainHash K0 ''EIP712Domain()'' instance1
       = getDomainHash K0 ''EIP712Domain()'' config1
   \<and> getDomainHash K0 ''EIP712Domain()'' (config1\<lparr>networkId := 5\<rparr>)
       = Inr (Hex (digestBytes (K0 (digestBytes (K0 (utf8 ''EIP712Domain()'')) @
            digestBytes (K0 (utf8 ''SignedOperationProxy'')) @
            digestBytes (K0 (utf8 ''1.0'')) @
            uint256Bytes 5 @
            leftPad32 (addressBytes (proxyAddress config1))))))
   \<and> digestBytes (K0 (utf8 ''EIP712Domain()'')) @
       digestBytes (K0 (utf8 ''SignedOperationProxy'')) @
       digestBytes (K0 (utf8 ''1.0'')) @
       uint256Bytes 5 @
       leftPad32 (addressBytes (proxyAddress config1))
     \<noteq> digestBytes (K0 (utf8 ''EIP712Domain()'')) @
       digestBytes (K0 (utf8 ''SignedOperationProxy'')) @
       digestBytes (K0 (utf8 ''1.0'')) @
       uint256Bytes (networkId config1) @
       leftPad32 (addressBytes (proxyAddress config1))"
proof -
  have h: "isNetworkId (networkId config1)" "isAddress (proxyAddress config1)"
    by code_simp+
  have e: "networkId instance1 = networkId config1"
    "proxyAddress instance1 = proxyAddress config1"
    by (simp_all add: config1_def instance1_def)
  have n: "isNetworkId 5" "5 \<noteq> networkId config1"
    by (simp_all add: isNetworkId_def config1_def)
  from getDomainHash_formula [OF h, where K = K0 and D = "''EIP712Domain()''"
      and this' = instance1 and n = 5] h e n
  show ?thesis
    by simp
qed

text \<open>
  C5. For every operation digest \<open>d\<close>, \<open>operationHashToCancelOperationHash\<close> is the hash
  of the text \<open>cancel\<close> followed by the 32 bytes of \<open>d\<close>. The hashed input is not of the
  form \<open>0x1901\<close>, domain hash, struct hash that \<open>getOperationHash\<close> uses, and the function
  takes neither the network id nor the contract address.
\<close>

theorem cancel_hash_formula:
  "operationHashToCancelOperationHash K (Hex (digestBytes d))
     = Inr (Hex (digestBytes (K (utf8 ''cancel'' @ digestBytes d))))
   \<and> (\<forall>dh bh. utf8 ''cancel'' @ digestBytes d \<noteq> [0x19, 0x01] @ digestBytes dh @ digestBytes bh)"
  by (simp add: cancel_digest utf8_def)

text \<open>
  C6. Each type signature string is the type's own \<open>TypeName(type1 name1,...)\<close> text,
  built from its field list, immediately followed by the string of the struct it refers
  to: Action's is followed by AssetAmount's, Operation's by Action's, so that the
  Operation string is the three texts in the order Operation, Action, AssetAmount.
\<close>

theorem type_strings_embed:
  "EIP712_ASSET_AMOUNT_STRING = spec_typeString ''AssetAmount'' EIP712_ASSET_AMOUNT_STRUCT
   \<and> EIP712_ACTION_STRING
       = spec_typeString ''Action'' EIP712_ACTION_STRUCT @ EIP712_ASSET_AMOUNT_STRING
   \<and> EIP712_OPERATION_STRING
       = spec_typeString ''Operation'' EIP712_OPERATION_STRUCT @ EIP712_ACTION_STRING
   \<and> EIP712_OPERATION_STRING
       = spec_typeString ''Operation'' EIP712_OPERATION_STRUCT
         @ spec_typeString ''Action'' EIP712_ACTION_STRUCT
         @ spec_typeString ''AssetAmount'' EIP712_ASSET_AMOUNT_STRUCT"
  by (simp add: EIP712_ASSET_AMOUNT_STRING_def EIP712_ACTION_STRING_def EIP712_OPERATION_STRING_def
      spec_typeString_def EIP712_ASSET_AMOUNT_STRUCT_def EIP712_ACTION_STRUCT_def
      EIP712_OPERATION_STRUCT_def)

text \<open>
  C7. \<open>getActionsHash(list)\<close> is the hash of the concatenation of the action hashes in
  sequence order. For a non-empty well-typed list that is lemma \<open>getActionsHash_digest\<close>,
  and lemma \<open>actions_order_changes_preimage\<close> is the sensitivity to the order. For the
  empty list the code answers null, not the hash of the empty concatenation.
\<close>

theorem getActionsHash_empty_list:
  "getActionsHash K [] = Inr Null
   \<and> getActionsHash K [] \<noteq> Inr (Hex (digestBytes (spec_hashActions K [])))"
  by (simp add: getActionsHash_Nil)

text \<open>
  C8. \<open>operationHasValidSignature\<close> and \<open>cancelOperationHasValidSignature\<close> return the
  boolean of comparing the recovered address with the claimed signer, false and no
  exception for a well-formed signature that recovers another address. Where the
  operation has a digest that is lemma \<open>recovery_decides_predicates\<close>. Both predicates
  hash the operation first, so for a well-typed operation without actions they raise the
  TypeError of the hashing, although the signature is well-formed and recovers an
  address other than the signer.
\<close>

theorem signature_predicates_empty_actions:
  "wfConfig config1 \<and> wfOperation emptySignedOperation
   \<and> ecRecoverTypedSignature R0 h (typedSignature emptySignedOperation) = Inr addressA
   \<and> toLowerCase addressA \<noteq> toLowerCase (signer emptySignedOperation)
   \<and> operationHasValidSignature K D R0 config1 emptySignedOperation = Inl TypeError
   \<and> cancelOperationHasValidSignature K D R0 config1 emptySignedOperation
        (typedSignature emptySignedOperation) = Inl TypeError"
  using emptySignedOperation_fields
  by (simp add: wf_config1 wf_emptySignedOperation recover_signature1 signers_differ
      operationHasValidSignature_no_actions cancelOperationHasValidSignature_no_actions)

text \<open>
  C9, as the code has it. The payload handed to the typed-data signer has the primary
  type \<open>Operation\<close>, the domain descriptor with the name \<open>SignedOperationProxy\<close>, the
  version \<open>1.0\<close>, the network id and the contract address, and the message in which
  every integer field is the decimal text of its value, while the address fields
  \<open>accountOwner\<close>, \<open>otherAccountOwner\<close> and \<open>sender\<close> (and \<open>verifyingContract\<close>) are the
  texts the caller supplied, unchanged.
\<close>

theorem typedData_payload:
  "primaryType (typedData DS T this operation) = ''Operation''
   \<and> domain (typedData DS T this operation)
       = \<lparr> name = ''SignedOperationProxy'', version = ''1.0'',
           chainId = networkId this, verifyingContract = proxyAddress this \<rparr>
   \<and> snd (params (typedDataRequest DS T now this operation rpcMethod))
       = typedData DS T this operation
   \<and> expiration_msg (message (typedData DS T this operation)) = decimal (expiration operation)
   \<and> salt_msg (message (typedData DS T this operation)) = decimal (salt operation)
   \<and> sender_msg (message (typedData DS T this operation)) = sender operation
   \<and> map actionType_msg (actions_msg (message (typedData DS T this operation)))
       = map (\<lambda>a. decimal (actionType a)) (actions operation)
   \<and> map accountOwner (actions_msg (message (typedData DS T this operation)))
       = map primaryAccountOwner (actions operation)
   \<and> map accountNumber (actions_msg (message (typedData DS T this operation)))
       = map (\<lambda>a. decimal (primaryAccountNumber a)) (actions operation)
   \<and> map (\<lambda>m. denomination_msg (assetAmount m))
         (actions_msg (message (typedData DS T this operation)))
       = map (\<lambda>a. decimal (denomination (amount a))) (actions operation)
   \<and> map (\<lambda>m. ref_msg (assetAmount m)) (actions_msg (message (typedData DS T this operation)))
       = map (\<lambda>a. decimal (ref (amount a))) (actions operation)
   \<and> map (\<lambda>m. value_msg (assetAmount m)) (actions_msg (message (typedData DS T this operation)))
       = map (\<lambda>a. decimal (value (amount a))) (actions operation)
   \<and> map primaryMarketId_msg (actions_msg (message (typedData DS T this operation)))
       = map (\<lambda>a. decimal (primaryMarketId a)) (actions operation)
   \<and> map secondaryMarketId_msg (actions_msg (message (typedData DS T this operation)))
       = map (\<lambda>a. decimal (secondaryMarketId a)) (actions operation)
   \<and> map otherAccountOwner (actions_msg (message (typedData DS T this operation)))
       = map secondaryAccountOwner (actions operation)
   \<and> map otherAccountNumber (actions_msg (message (typedData DS T this operation)))
       = map (\<lambda>a. decimal (secondaryAccountNumber a)) (actions operation)"
  by (simp add: typedData_def typedDataRequest_def actionData_def toString_def toFixed0_def
      comp_def)

text \<open>
  C9, as stated, says that every address field is rendered as lowercase hex. The sender
  of \<open>operation1\<close> has capital letters, and the payload carries it as it is.
\<close>

theorem typedData_address_not_lowercased:
  "sender_msg (message (typedData [] (\<lambda>s. s) config1 operation1))
   \<noteq> toLowerCase (sender operation1)"
proof -
  have "toLowerCase addressA \<noteq> addressA"
    by code_simp
  then show ?thesis
    by (simp add: typedData_def operation1_def)
qed

text \<open>
  C10. Where the operation has a digest, \<open>cancelOperation(operation, options)\<close> with a
  caller-supplied options object sets the \<open>from\<close> property of that very object to
  \<open>operation.signer\<close>, whatever it held, and dispatches the cancel with the reference to
  the same object: no copy is made, and no other property or object changes.
\<close>

theorem cancelOperation_overwrites_from:
  assumes "getOperationHash K D this operation = Inr h" and "r < length st"
  shows "cancelOperation K D this operation (Some r) st
           = (Inr (Cancel h (Some r)),
              st[r := (st ! r)(''from'' \<mapsto> JStr (signer operation))])
         \<and> (snd (cancelOperation K D this operation (Some r) st) ! r) ''from''
             = Some (JStr (signer operation))
         \<and> length (snd (cancelOperation K D this operation (Some r) st)) = length st"
  using assms by (simp add: cancelOperation_def cancelOperationByHash_def)

theorem cancelOperation_overwrites_from_witness:
  "getOperationHash K0 ''EIP712Domain()'' config1 operation1
     = Inr (Hex (digestBytes (spec_hashOperation K0 ''EIP712Domain()'' config1 operation1)))
   \<and> (0::nat) < length [[''from'' \<mapsto> JStr addressA, ''gas'' \<mapsto> JNum 21000]]
   \<and> cancelOperation K0 ''EIP712Domain()'' config1 operation1 (Some 0)
        [[''from'' \<mapsto> JStr addressA, ''gas'' \<mapsto> JNum 21000]]
       = (Inr (Cancel (Hex (digestBytes (spec_hashOperation K0 ''EIP712Domain()'' config1 operation1)))
                 (Some 0)),
          [[''from'' \<mapsto> JStr addressB, ''gas'' \<mapsto> JNum 21000]])"
proof -
  have l: "(0::nat) < length [[''from'' \<mapsto> JStr addressA, ''gas'' \<mapsto> JNum 21000]]"
    by simp
  have s: "signer operation1 = addressB"
    by (simp add: operation1_def)
  have m: "[''from'' \<mapsto> JStr addressA, ''gas'' \<mapsto> JNum 21000](''from'' \<mapsto> JStr addressB)
           = [''from'' \<mapsto> JStr addressB, ''gas'' \<mapsto> JNum 21000]"
    by (rule ext) simp
  from cancelOperation_overwrites_from [OF operation1_digest l] operation1_digest l
  show ?thesis
    by (simp add: s m)
qed

end
